theory Spec2Isabelle
  imports Main "HOL-Library.Sublist"
begin

section \<open>Values of the host language\<close>

text \<open>
  The manager is a TypeScript class, \<open>ConvexBackend\<close>.  Its methods mutate the fields of the
  instance and talk to the operating system (child processes, the file system, HTTP).  The
  embedding passes the instance explicitly, returns it updated, and records every call that
  leaves the class as an \<open>event\<close>; what the outside answers is read from a \<open>host\<close> record.

  A JavaScript exception is a value: \<open>Error m\<close> is \<open>throw new Error(m)\<close> written in the
  class itself, \<open>Thrown m\<close> is an exception of a library call that the class lets through.
\<close>

datatype error =
    Error string
  | Thrown string
  | ReadinessTimeout string nat

text \<open>Optional values (\<open>T | undefined\<close>) are options; \<open>a ?? d\<close> is \<open>nullish a d\<close>.\<close>

definition nullish :: "'a option \<Rightarrow> 'a \<Rightarrow> 'a" where
  "nullish a d = (case a of None \<Rightarrow> d | Some v \<Rightarrow> v)"

text \<open>
  Truthiness, as \<open>if (x)\<close> and \<open>!x\<close> test it: \<open>undefined\<close>, the empty string and the
  number \<open>0\<close> are falsy.  Ports, process identifiers and HTTP statuses are naturals.
\<close>

definition truthy_string :: "string option \<Rightarrow> bool" where
  "truthy_string s = (case s of None \<Rightarrow> False | Some v \<Rightarrow> v \<noteq> [])"

definition truthy_number :: "nat option \<Rightarrow> bool" where
  "truthy_number n = (case n of None \<Rightarrow> False | Some v \<Rightarrow> v \<noteq> 0)"

text \<open>Decimal rendering of a number, as template strings and \<open>String(n)\<close> produce it.\<close>

definition digit :: "nat \<Rightarrow> char" where
  "digit d = ''0123456789'' ! (d mod 10)"

function show_nat :: "nat \<Rightarrow> string" where
  "show_nat n = (if n < 10 then [digit n] else show_nat (n div 10) @ [digit n])"
  by pat_completeness auto
termination
  by (relation "measure id") auto

declare show_nat.simps [simp del]

definition String :: "nat option \<Rightarrow> string" where
  "String n = (case n of None \<Rightarrow> ''undefined'' | Some v \<Rightarrow> show_nat v)"

section \<open>Data model\<close>

type_synonym StdioOptions = string

record ConvexBackendOptions =
  opt_instanceName :: "string option"
  opt_instanceSecret :: "string option"
  opt_adminKey :: "string option"
  opt_port :: "nat option"
  opt_siteProxyPort :: "nat option"
  opt_projectDir :: "string option"
  opt_stdio :: "StdioOptions option"
  opt_deployTimeout :: "nat option"
  opt_healthCheckTimeout :: "nat option"
  opt_binaryVersion :: "string option"
  opt_binaryCacheDir :: "string option"
  opt_binaryCacheTtl :: "nat option"

record ChildProcess =
  pid :: "nat option"

record ConvexBackend =
  port :: "nat option"
  siteProxyPort :: "nat option"
  process :: "ChildProcess option"
  backendUrl :: "string option"
  projectDir :: string
  backendDir :: string
  stdio :: StdioOptions
  instanceName :: string
  instanceSecret :: string
  adminKey :: string
  deployTimeout :: nat
  healthCheckTimeout :: nat
  binaryVersion :: "string option"
  binaryCacheDir :: "string option"
  binaryCacheTtl :: nat

record KeyPair =
  keys_instanceSecret :: string
  keys_adminKey :: string

record DownloadOptions =
  cacheTtlMs :: nat
  version :: "string option"
  cacheDir :: "string option"

text \<open>
  An HTTP request as \<open>fetch\<close> receives it.  The body is the value handed to
  \<open>JSON.stringify\<close>: the list of environment changes, or a function call.
\<close>

datatype body =
    NoBody
  | Changes "(string \<times> string) list"
  | FunctionCall string string string

record Request =
  req_url :: string
  req_method :: string
  req_headers :: "(string \<times> string) list"
  req_body :: body

text \<open>
  A response: its status, its text, and what \<open>response.json()\<close> followed by the read of
  the field \<open>value\<close> gives (\<open>Inl\<close> when the body is not JSON).
\<close>

record Response =
  status :: nat
  text_of :: string
  json_value :: "string + string option"

definition ok :: "Response \<Rightarrow> bool" where
  "ok r = (200 \<le> status r \<and> status r \<le> 299)"

text \<open>
  The result of \<open>childProcess.spawnSync\<close>: the \<open>error\<close> field is set when the command could
  not be started or was killed at the timeout (Node then reports \<open>ETIMEDOUT\<close>); \<open>status\<close> is
  \<open>null\<close> when the command did not exit by itself.
\<close>

record SpawnSyncReturns =
  sync_error :: "string option"
  sync_status :: "nat option"
  sync_stdout :: string
  sync_stderr :: string

text \<open>Every call that leaves the class, in the order in which the source makes it.\<close>

datatype event =
    LogInfo string
  | MkdirSync string
  | DownloadBinary DownloadOptions
  | SpawnChild string "string list" string StdioOptions
  | Kill nat string
  | Rm string bool
  | Fetch Request
  | SpawnSync string "string list" string nat

fun is_http :: "event \<Rightarrow> bool" where
  "is_http (Fetch _) = True"
| "is_http _ = False"

fun is_spawn :: "event \<Rightarrow> bool" where
  "is_spawn (SpawnChild _ _ _ _) = True"
| "is_spawn _ = False"

text \<open>
  The host: what the runtime and the libraries answer.  \<open>generateKeyPair\<close> (module
  \<open>keys.ts\<close>) and \<open>downloadConvexBinary\<close> (module \<open>utils.ts\<close>) are imported by the class and
  are parameters here, as are Node's \<open>path.join\<close>, \<open>fs.mkdirSync\<close>, \<open>childProcess.spawn\<close>,
  \<open>process.kill\<close>, \<open>fsp.rm\<close>, \<open>fetch\<close> and \<open>childProcess.spawnSync\<close>.  A call that may
  throw answers \<open>Some m\<close> or \<open>Inl m\<close> with the message of the exception.  \<open>probe\<close> is the
  answer of \<open>fetch\<close> to a GET of a URL at a given time in milliseconds, for the polling
  of the readiness check.
\<close>

record host =
  cwd :: string
  randomBytesHex :: string
  pathJoin :: "string list \<Rightarrow> string"
  generateKeyPair :: "string \<Rightarrow> KeyPair"
  mkdirSync :: "string \<Rightarrow> string option"
  downloadConvexBinary :: "DownloadOptions \<Rightarrow> string + string"
  spawnChild :: "string \<Rightarrow> string list \<Rightarrow> string \<Rightarrow> StdioOptions \<Rightarrow> ChildProcess"
  kill :: "nat \<Rightarrow> string \<Rightarrow> string option"
  rm :: "string \<Rightarrow> string option"
  fetch :: "Request \<Rightarrow> string + Response"
  spawnSync :: "string \<Rightarrow> string list \<Rightarrow> string \<Rightarrow> nat \<Rightarrow> SpawnSyncReturns"
  probe :: "string \<Rightarrow> nat \<Rightarrow> string + Response"
  pollInterval :: nat

type_synonym 'a outcome = "(error + 'a) \<times> ConvexBackend \<times> event list"

section \<open>The constructor\<close>

text \<open>
  \<open>supplied\<close> is the test \<open>options.instanceSecret && options.adminKey\<close>.  Where it holds
  both options are defined, so \<open>the\<close> reads a defined value; \<open>generateKeyPair\<close> is called in
  the other branch only.  The field \<open>process\<close> has no initialiser and the constructor does
  not assign it.
\<close>

definition constructor :: "host \<Rightarrow> ConvexBackendOptions \<Rightarrow> ConvexBackend" where
  "constructor h options =
    (let projectDir' = nullish (opt_projectDir options) (cwd h);
         port' = nullish (opt_port options) 3210;
         instanceName' = nullish (opt_instanceName options) ''convex-local'';
         supplied = (truthy_string (opt_instanceSecret options)
                     \<and> truthy_string (opt_adminKey options));
         keys = generateKeyPair h instanceName'
     in \<lparr> port = Some port',
          siteProxyPort = Some (nullish (opt_siteProxyPort options) 3211),
          process = None,
          backendUrl = Some (''http://127.0.0.1:'' @ show_nat port'),
          projectDir = projectDir',
          backendDir = pathJoin h [projectDir', ''.convex'', randomBytesHex h],
          stdio = nullish (opt_stdio options) ''inherit'',
          instanceName = instanceName',
          instanceSecret =
            (if supplied then the (opt_instanceSecret options) else keys_instanceSecret keys),
          adminKey = (if supplied then the (opt_adminKey options) else keys_adminKey keys),
          deployTimeout = nullish (opt_deployTimeout options) 60000,
          healthCheckTimeout = nullish (opt_healthCheckTimeout options) 10000,
          binaryVersion = opt_binaryVersion options,
          binaryCacheDir = opt_binaryCacheDir options,
          binaryCacheTtl = nullish (opt_binaryCacheTtl options) (7 * 24 * 60 * 60 * 1000) \<rparr>)"

definition getAdminKey :: "ConvexBackend \<Rightarrow> string" where
  "getAdminKey b = adminKey b"

section \<open>Spawning\<close>

text \<open>The arguments the executable is started with.\<close>

definition backend_args :: "ConvexBackend \<Rightarrow> string \<Rightarrow> string \<Rightarrow> string list" where
  "backend_args b storageDir sqlitePath =
    [''--port'', String (port b),
     ''--site-proxy-port'', String (siteProxyPort b),
     ''--instance-name'', instanceName b,
     ''--instance-secret'', instanceSecret b,
     ''--local-storage'', storageDir,
     sqlitePath]"

definition spawn :: "host \<Rightarrow> string \<Rightarrow> ConvexBackend \<Rightarrow> unit outcome" where
  "spawn h dir b =
    (let storageDir = pathJoin h [dir, ''convex_local_storage''] in
     case mkdirSync h storageDir of
       Some m \<Rightarrow> (Inl (Thrown m), b, [MkdirSync storageDir])
     | None \<Rightarrow>
        (let sqlitePath = pathJoin h [dir, ''convex_local_backend.sqlite3''];
             opts = \<lparr> cacheTtlMs = binaryCacheTtl b, version = binaryVersion b,
                      cacheDir = binaryCacheDir b \<rparr>
         in case downloadConvexBinary h opts of
              Inl m \<Rightarrow> (Inl (Thrown m), b, [MkdirSync storageDir, DownloadBinary opts])
            | Inr convexBinary \<Rightarrow>
               (let args = backend_args b storageDir sqlitePath;
                    child = spawnChild h convexBinary args dir (stdio b);
                    b' = b\<lparr>process := Some child\<rparr>;
                    evs = [MkdirSync storageDir, DownloadBinary opts,
                           SpawnChild convexBinary args dir (stdio b)]
                in if \<not> truthy_number (pid child)
                   then (Inl (Error ''Convex process failed to start - no PID assigned''), b', evs)
                   else (Inr (), b',
                         evs @ [LogInfo (''Backend spawned on port '' @ String (port b)
                                         @ '' (waiting for ready...)'')]))))"

section \<open>Readiness\<close>

text \<open>
  Modelled from the spec: \<open>waitForHttpOk\<close> of the module \<open>utils.ts\<close>, which is not among
  the sources.  The spec (4.4) has it issue a probe against the URL again and again, at a
  fixed interval, until a successful response is observed or the timeout has elapsed;
  then it raises a timeout error that differs from a refused connection, and a refused
  connection during the polling is swallowed and retried.  Time is counted in milliseconds
  from the call; a round takes the polling interval, and at least one millisecond.
\<close>

definition get_request :: "string \<Rightarrow> Request" where
  "get_request url = \<lparr> req_url = url, req_method = ''GET'', req_headers = [], req_body = NoBody \<rparr>"

definition probe_ok :: "host \<Rightarrow> string \<Rightarrow> nat \<Rightarrow> bool" where
  "probe_ok h url t = (case probe h url t of Inl m \<Rightarrow> False | Inr r \<Rightarrow> ok r)"

definition round_ms :: "host \<Rightarrow> nat" where
  "round_ms h = max 1 (pollInterval h)"

function waitForHttpOk_from :: "host \<Rightarrow> string \<Rightarrow> nat \<Rightarrow> nat \<Rightarrow> (error + unit) \<times> event list" where
  "waitForHttpOk_from h url timeoutMs elapsed =
    (if timeoutMs \<le> elapsed then (Inl (ReadinessTimeout url timeoutMs), [])
     else if probe_ok h url elapsed then (Inr (), [Fetch (get_request url)])
     else apsnd (Cons (Fetch (get_request url)))
            (waitForHttpOk_from h url timeoutMs (elapsed + round_ms h)))"
  by pat_completeness auto
termination
  by (relation "measure (\<lambda>(h, url, timeoutMs, elapsed). timeoutMs - elapsed)")
     (auto simp: round_ms_def)

declare waitForHttpOk_from.simps [simp del]

definition waitForHttpOk :: "host \<Rightarrow> string \<Rightarrow> nat \<Rightarrow> (error + unit) \<times> event list" where
  "waitForHttpOk h url timeoutMs = waitForHttpOk_from h url timeoutMs 0"

definition version_url :: "ConvexBackend \<Rightarrow> string" where
  "version_url b = ''http://localhost:'' @ String (port b) @ ''/version''"

definition healthCheck :: "host \<Rightarrow> ConvexBackend \<Rightarrow> unit outcome" where
  "healthCheck h b =
    (if \<not> truthy_number (port b) then (Inl (Error ''Port not set for health check''), b, [])
     else (let url = version_url b;
               (r, evs) = waitForHttpOk h url (healthCheckTimeout b)
           in (r, b, evs)))"

definition waitForReady :: "host \<Rightarrow> ConvexBackend \<Rightarrow> unit outcome" where
  "waitForReady h b =
    (case healthCheck h b of
       (Inl e, b', evs) \<Rightarrow> (Inl e, b', evs)
     | (Inr u, b', evs) \<Rightarrow>
        (Inr (), b',
         evs @ [LogInfo ''Backend ready'',
                LogInfo (''  Instance name:   '' @ instanceName b'),
                LogInfo (''  Instance secret: '' @ instanceSecret b'),
                LogInfo (''  Admin key:       '' @ adminKey b'),
                LogInfo (''  Backend URL:     '' @ nullish (backendUrl b') ''undefined'')]))"

definition startBackend :: "host \<Rightarrow> string \<Rightarrow> ConvexBackend \<Rightarrow> unit outcome" where
  "startBackend h dir b =
    (case spawn h dir b of
       (Inl e, b', evs) \<Rightarrow> (Inl e, b', evs)
     | (Inr u, b', evs) \<Rightarrow>
        (case waitForReady h b' of (r, b'', evs') \<Rightarrow> (r, b'', evs @ evs')))"

section \<open>Deploying\<close>

definition show_status :: "nat option \<Rightarrow> string" where
  "show_status s = (case s of None \<Rightarrow> ''null'' | Some v \<Rightarrow> show_nat v)"

text \<open>
  The message of the error that Node's \<open>spawnSync\<close> reports in the \<open>error\<close> field when it
  has killed the command at the timeout.
\<close>

definition timeout_message :: "string \<Rightarrow> string" where
  "timeout_message command = ''spawnSync '' @ command @ '' ETIMEDOUT''"

definition deploy_args :: "ConvexBackend \<Rightarrow> string list" where
  "deploy_args b =
    (let backendUrl' = ''http://localhost:'' @ String (port b)
     in [''convex'', ''deploy'', ''--admin-key'', adminKey b, ''--url'', backendUrl'])"

definition deploy :: "host \<Rightarrow> ConvexBackend \<Rightarrow> unit outcome" where
  "deploy h b =
    (if \<not> truthy_number (port b) then (Inl (Error ''Backend not started''), b, [])
     else
      (let args = deploy_args b;
           deployResult = spawnSync h ''bun'' args (projectDir b) (deployTimeout b);
           evs = [SpawnSync ''bun'' args (projectDir b) (deployTimeout b)]
       in case sync_error deployResult of
            Some m \<Rightarrow> (Inl (Error (''Failed to spawn convex deploy: '' @ m)), b, evs)
          | None \<Rightarrow>
             if sync_status deployResult \<noteq> Some 0
             then (Inl (Error (''Failed to deploy (exit code ''
                               @ show_status (sync_status deployResult) @ ''):'' @ [CHR 0x0A]
                               @ sync_stdout deployResult @ sync_stderr deployResult)), b, evs)
             else (Inr (), b, evs)))"

section \<open>The runtime API\<close>

definition setEnv_request :: "ConvexBackend \<Rightarrow> string \<Rightarrow> string \<Rightarrow> Request" where
  "setEnv_request b name val =
    (let backendUrl' = ''http://localhost:'' @ String (port b)
     in \<lparr> req_url = backendUrl' @ ''/api/v1/update_environment_variables'',
          req_method = ''POST'',
          req_headers = [(''Content-Type'', ''application/json''),
                         (''Authorization'', ''Convex '' @ adminKey b)],
          req_body = Changes [(name, val)] \<rparr>)"

definition setEnv :: "host \<Rightarrow> string \<Rightarrow> string \<Rightarrow> ConvexBackend \<Rightarrow> unit outcome" where
  "setEnv h name val b =
    (if \<not> truthy_number (port b) then (Inl (Error ''Backend not started''), b, [])
     else
      (let req = setEnv_request b name val
       in case fetch h req of
            Inl m \<Rightarrow> (Inl (Thrown m), b, [Fetch req])
          | Inr response \<Rightarrow>
             if \<not> ok response
             then (Inl (Error (''Failed to set '' @ name @ '' env via API (''
                               @ show_nat (status response) @ ''): '' @ text_of response)),
                   b, [Fetch req])
             else (Inr (), b, [Fetch req])))"

definition runFunction ::
  "host \<Rightarrow> string \<Rightarrow> string option \<Rightarrow> ConvexBackend \<Rightarrow> (string option) outcome" where
  "runFunction h functionName args b =
    (if \<not> truthy_number (port b) then (Inl (Error ''Backend not started''), b, [])
     else
      (let backendUrl' = ''http://localhost:'' @ String (port b);
           req = \<lparr> req_url = backendUrl' @ ''/api/function'',
                   req_method = ''POST'',
                   req_headers = [(''Content-Type'', ''application/json''),
                                  (''Convex-Client'', ''convex-vite-plugin''),
                                  (''Authorization'', ''Convex '' @ adminKey b)],
                   req_body = FunctionCall functionName ''json'' (nullish args ''{}'') \<rparr>
       in case fetch h req of
            Inl m \<Rightarrow> (Inl (Thrown m), b, [Fetch req])
          | Inr response \<Rightarrow>
             if \<not> ok response
             then (Inl (Error (''Failed to run '' @ functionName @ '' (''
                               @ show_nat (status response) @ ''): '' @ text_of response)),
                   b, [Fetch req])
             else (case json_value response of
                     Inl m \<Rightarrow> (Inl (Thrown m), b, [Fetch req])
                   | Inr v \<Rightarrow> (Inr v, b, [Fetch req]))))"

section \<open>Stopping\<close>

text \<open>
  \<open>process.kill\<close> stands in a \<open>try\<close> whose \<open>catch\<close> is empty: its answer is read and
  dropped.  \<open>fsp.rm\<close> is awaited outside any \<open>try\<close>: its exception is the exception of
  \<open>stop\<close>.  The parameter \<open>cleanup\<close> defaults to \<open>true\<close>.
\<close>

definition stop :: "host \<Rightarrow> bool option \<Rightarrow> ConvexBackend \<Rightarrow> unit outcome" where
  "stop h cleanup b =
    (case process b of
       None \<Rightarrow> (Inr (), b, [])
     | Some child \<Rightarrow>
        (case pid child of
           None \<Rightarrow> (Inr (), b, [])
         | Some pid' \<Rightarrow>
            (let killed = kill h pid' ''SIGKILL'';
                 b' = b\<lparr>process := None\<rparr>;
                 evs = [Kill pid' ''SIGKILL'']
             in if nullish cleanup True
                then (let evs' = evs @ [LogInfo ''Cleaning up backend files...'',
                                        Rm (backendDir b') True]
                      in case rm h (backendDir b') of
                           Some m \<Rightarrow> (Inl (Thrown m), b', evs')
                         | None \<Rightarrow> (Inr (), b', evs'))
                else (Inr (), b', evs))))"

section \<open>A host for tests\<close>

text \<open>
  A host on which everything succeeds: the executable starts with process identifier
  4242, the liveness endpoint refuses connections for the first 200 milliseconds and
  answers 200 afterwards, the deploy command exits with status 0 and every API call is
  answered 200.
\<close>

definition join_slash :: "string list \<Rightarrow> string" where
  "join_slash ps = foldr (\<lambda>p acc. if acc = [] then p else p @ ''/'' @ acc) ps []"

definition ok_response :: Response where
  "ok_response = \<lparr> status = 200, text_of = ''{}'', json_value = Inr None \<rparr>"

definition stub_host :: host where
  "stub_host =
    \<lparr> cwd = ''/project'',
      randomBytesHex = ''000102030405060708090a0b0c0d0e0f'',
      pathJoin = join_slash,
      generateKeyPair =
        (\<lambda>name. \<lparr> keys_instanceSecret = ''generated-secret'',
                      keys_adminKey = name @ ''|generated-key'' \<rparr>),
      mkdirSync = (\<lambda>path. None),
      downloadConvexBinary = (\<lambda>opts. Inr ''/cache/convex-local-backend''),
      spawnChild = (\<lambda>binary args dir io. \<lparr> pid = Some 4242 \<rparr>),
      kill = (\<lambda>p signal. None),
      rm = (\<lambda>path. None),
      fetch = (\<lambda>req. Inr ok_response),
      spawnSync =
        (\<lambda>command args dir timeout.
           \<lparr> sync_error = None, sync_status = Some 0, sync_stdout = [], sync_stderr = [] \<rparr>),
      probe = (\<lambda>url t. if t < 200 then Inl ''ECONNREFUSED'' else Inr ok_response),
      pollInterval = 100 \<rparr>"

definition no_options :: ConvexBackendOptions where
  "no_options =
    \<lparr> opt_instanceName = None, opt_instanceSecret = None, opt_adminKey = None,
      opt_port = None, opt_siteProxyPort = None, opt_projectDir = None, opt_stdio = None,
      opt_deployTimeout = None, opt_healthCheckTimeout = None, opt_binaryVersion = None,
      opt_binaryCacheDir = None, opt_binaryCacheTtl = None \<rparr>"

section \<open>Sequences of calls\<close>

datatype call =
    Spawn string
  | WaitForReady
  | StartBackend string
  | Deploy
  | SetEnv string string
  | RunFunction string "string option"
  | Stop "bool option"
  | GetAdminKey

fun spawns :: "call \<Rightarrow> bool" where
  "spawns (Spawn dir) = True"
| "spawns (StartBackend dir) = True"
| "spawns c = False"

definition forget :: "'a outcome \<Rightarrow> ConvexBackend \<times> event list" where
  "forget r = snd r"

fun perform :: "host \<Rightarrow> call \<Rightarrow> ConvexBackend \<Rightarrow> ConvexBackend \<times> event list" where
  "perform h (Spawn dir) b = forget (spawn h dir b)"
| "perform h WaitForReady b = forget (waitForReady h b)"
| "perform h (StartBackend dir) b = forget (startBackend h dir b)"
| "perform h Deploy b = forget (deploy h b)"
| "perform h (SetEnv name val) b = forget (setEnv h name val b)"
| "perform h (RunFunction name args) b = forget (runFunction h name args b)"
| "perform h (Stop cleanup) b = forget (stop h cleanup b)"
| "perform h GetAdminKey b = (b, [])"

text \<open>
  A caller makes one call after the other on the same instance, whether a call returned
  or threw.
\<close>

fun perform_all :: "host \<Rightarrow> call list \<Rightarrow> ConvexBackend \<Rightarrow> ConvexBackend \<times> event list" where
  "perform_all h [] b = (b, [])"
| "perform_all h (c # cs) b =
    (case perform h c b of (b', evs) \<Rightarrow>
       (case perform_all h cs b' of (b'', evs') \<Rightarrow> (b'', evs @ evs')))"

text \<open>Options that supply credentials: an empty secret, both credentials, the secret alone.\<close>

definition empty_secret_options :: ConvexBackendOptions where
  "empty_secret_options =
    no_options\<lparr> opt_instanceSecret := Some [], opt_adminKey := Some ''supplied-key'' \<rparr>"

definition both_options :: ConvexBackendOptions where
  "both_options =
    no_options\<lparr> opt_instanceSecret := Some ''supplied-secret'',
                opt_adminKey := Some ''supplied-key'' \<rparr>"

definition secret_only_options :: ConvexBackendOptions where
  "secret_only_options = no_options\<lparr> opt_instanceSecret := Some ''supplied-secret'' \<rparr>"

text \<open>
  Instances for tests: a new instance with the default options, and the same instance
  after \<open>spawn\<close> on its own working directory.  On \<open>gone_host\<close> the process has
  exited already and the working directory does not exist: \<open>process.kill\<close> and \<open>fsp.rm\<close>
  both throw.
\<close>

definition fresh_instance :: ConvexBackend where
  "fresh_instance = constructor stub_host no_options"

definition live_instance :: ConvexBackend where
  "live_instance = fst (snd (spawn stub_host (backendDir fresh_instance) fresh_instance))"

definition gone_host :: host where
  "gone_host =
    stub_host\<lparr> kill := (\<lambda>p signal. Some ''kill ESRCH''),
               rm := (\<lambda>path. Some (''ENOENT: no such file or directory, lstat '' @ path)) \<rparr>"

text \<open>
  Hosts on which the deploy command exits with status 1, or is killed at the timeout, and
  on which the API answers 500.
\<close>

definition failing_deploy_host :: host where
  "failing_deploy_host =
    stub_host\<lparr> spawnSync :=
      (\<lambda>command args dir timeout.
         \<lparr> sync_error = None, sync_status = Some 1, sync_stdout = ''pushing... '',
           sync_stderr = ''schema validation failed'' \<rparr>) \<rparr>"

definition slow_deploy_host :: host where
  "slow_deploy_host =
    stub_host\<lparr> spawnSync :=
      (\<lambda>command args dir timeout.
         \<lparr> sync_error = Some (timeout_message command), sync_status = None,
           sync_stdout = [], sync_stderr = [] \<rparr>) \<rparr>"

definition error_response :: Response where
  "error_response = \<lparr> status = 500, text_of = ''internal error'', json_value = Inl ''not JSON'' \<rparr>"

definition failing_api_host :: host where
  "failing_api_host = stub_host\<lparr> fetch := (\<lambda>req. Inr error_response) \<rparr>"

definition no_pid_host :: host where
  "no_pid_host = stub_host\<lparr> spawnChild := (\<lambda>binary args dir io. \<lparr> pid = None \<rparr>) \<rparr>"

text \<open>
  A host whose liveness endpoint refuses every connection, and an instance with a health
  check timeout of 50 milliseconds.
\<close>

definition refusing_host :: host where
  "refusing_host = stub_host\<lparr> probe := (\<lambda>url t. Inl ''ECONNREFUSED'') \<rparr>"

definition impatient_instance :: ConvexBackend where
  "impatient_instance = constructor stub_host (no_options\<lparr> opt_healthCheckTimeout := Some 50 \<rparr>)"

section \<open>What a call leaves of the instance\<close>


lemma constructor_process: "process (constructor h options) = None"
  by (simp add: constructor_def Let_def)

lemma healthCheck_state: "fst (snd (healthCheck h b)) = b"
  by (simp add: healthCheck_def Let_def case_prod_beta)

lemma waitForReady_state: "fst (snd (waitForReady h b)) = b"
  using healthCheck_state [of h b]
  by (simp add: waitForReady_def case_prod_beta split: sum.splits)

lemma deploy_state: "fst (snd (deploy h b)) = b"
  by (simp add: deploy_def Let_def split: option.splits)

lemma setEnv_state: "fst (snd (setEnv h name val b)) = b"
  by (simp add: setEnv_def Let_def split: sum.splits)

lemma runFunction_state: "fst (snd (runFunction h name args b)) = b"
  by (simp add: runFunction_def Let_def split: sum.splits)

lemma stop_state: "fst (snd (stop h cleanup b)) = b \<or> fst (snd (stop h cleanup b)) = b\<lparr>process := None\<rparr>"
  by (simp add: stop_def Let_def split: option.splits)

lemma stop_credentials:
  "instanceSecret (fst (snd (stop h cleanup b))) = instanceSecret b"
  "adminKey (fst (snd (stop h cleanup b))) = adminKey b"
  using stop_state [of h cleanup b] by auto

lemma stop_process_None: "process b = None \<Longrightarrow> process (fst (snd (stop h cleanup b))) = None"
  by (simp add: stop_def)

lemma spawn_credentials:
  "instanceSecret (fst (snd (spawn h dir b))) = instanceSecret b"
  "adminKey (fst (snd (spawn h dir b))) = adminKey b"
  by (simp_all add: spawn_def Let_def split: option.splits sum.splits)

lemma startBackend_credentials:
  "instanceSecret (fst (snd (startBackend h dir b))) = instanceSecret b"
  "adminKey (fst (snd (startBackend h dir b))) = adminKey b"
  using spawn_credentials [of h dir b] waitForReady_state [of h "fst (snd (spawn h dir b))"]
  by (auto simp add: startBackend_def case_prod_beta split: sum.splits)

lemma perform_credentials:
  "instanceSecret (fst (perform h c b)) = instanceSecret b \<and> adminKey (fst (perform h c b)) = adminKey b"
proof (cases c)
  case (Spawn dir)
  then show ?thesis using spawn_credentials [of h dir b] by (simp add: forget_def case_prod_beta)
next
  case WaitForReady
  then show ?thesis using waitForReady_state [of h b] by (simp add: forget_def case_prod_beta)
next
  case (StartBackend dir)
  then show ?thesis using startBackend_credentials [of h dir b] by (simp add: forget_def case_prod_beta)
next
  case Deploy
  then show ?thesis using deploy_state [of h b] by (simp add: forget_def case_prod_beta)
next
  case (SetEnv name val)
  then show ?thesis using setEnv_state [of h name val b] by (simp add: forget_def case_prod_beta)
next
  case (RunFunction name args)
  then show ?thesis using runFunction_state [of h name args b] by (simp add: forget_def case_prod_beta)
next
  case (Stop cleanup)
  then show ?thesis using stop_credentials [of h cleanup b] by (simp add: forget_def case_prod_beta)
next
  case GetAdminKey
  then show ?thesis by simp
qed

lemma perform_all_credentials:
  "instanceSecret (fst (perform_all h cs b)) = instanceSecret b \<and> adminKey (fst (perform_all h cs b)) = adminKey b"
proof (induction cs arbitrary: b)
  case Nil
  then show ?case by simp
next
  case (Cons c cs)
  show ?case
    using Cons.IH [of "fst (perform h c b)"] perform_credentials [of h c b]
    by (simp add: case_prod_beta)
qed

lemma perform_process_None:
  "process b = None \<Longrightarrow> \<not> spawns c \<Longrightarrow> process (fst (perform h c b)) = None"
proof (cases c)
  case WaitForReady
  assume "process b = None"
  then show ?thesis using WaitForReady waitForReady_state [of h b] by (simp add: forget_def case_prod_beta)
next
  case Deploy
  assume "process b = None"
  then show ?thesis using Deploy deploy_state [of h b] by (simp add: forget_def case_prod_beta)
next
  case (SetEnv name val)
  assume "process b = None"
  then show ?thesis using SetEnv setEnv_state [of h name val b] by (simp add: forget_def case_prod_beta)
next
  case (RunFunction name args)
  assume "process b = None"
  then show ?thesis using RunFunction runFunction_state [of h name args b] by (simp add: forget_def case_prod_beta)
next
  case (Stop cleanup)
  assume "process b = None"
  then show ?thesis using Stop stop_process_None [of b h cleanup] by (simp add: forget_def case_prod_beta)
qed simp_all

lemma perform_all_process_None:
  "process b = None \<Longrightarrow> \<not> list_ex spawns cs \<Longrightarrow> process (fst (perform_all h cs b)) = None"
proof (induction cs arbitrary: b)
  case Nil
  then show ?case by simp
next
  case (Cons c cs)
  from Cons.prems have "process (fst (perform h c b)) = None"
    using perform_process_None [of b c h] by simp
  with Cons.IH [of "fst (perform h c b)"] Cons.prems show ?case
    by (simp add: case_prod_beta)
qed

section \<open>Calls that start no process\<close>

lemma waitForHttpOk_from_events:
  "\<not> list_ex is_spawn (snd (waitForHttpOk_from h url timeoutMs elapsed))"
proof (induction h url timeoutMs elapsed rule: waitForHttpOk_from.induct)
  case (1 h url timeoutMs elapsed)
  then show ?case
    by (subst waitForHttpOk_from.simps) (simp add: apsnd_def map_prod_def case_prod_beta)
qed

lemma waitForReady_events: "\<not> list_ex is_spawn (snd (snd (waitForReady h b)))"
  using waitForHttpOk_from_events [of h _ "healthCheckTimeout b" 0]
  by (simp add: waitForReady_def healthCheck_def waitForHttpOk_def Let_def case_prod_beta
      split: sum.splits)

lemma deploy_events: "\<not> list_ex is_spawn (snd (snd (deploy h b)))"
  by (simp add: deploy_def Let_def split: option.splits)

lemma setEnv_events: "\<not> list_ex is_spawn (snd (snd (setEnv h name val b)))"
  by (simp add: setEnv_def Let_def split: sum.splits)

lemma runFunction_events: "\<not> list_ex is_spawn (snd (snd (runFunction h name args b)))"
  by (simp add: runFunction_def Let_def split: sum.splits)

lemma stop_events: "\<not> list_ex is_spawn (snd (snd (stop h cleanup b)))"
  by (simp add: stop_def Let_def split: option.splits)

lemma perform_events: "\<not> spawns c \<Longrightarrow> \<not> list_ex is_spawn (snd (perform h c b))"
  using waitForReady_events [of h b] deploy_events [of h b] stop_events [of h _ b]
    setEnv_events [of h _ _ b] runFunction_events [of h _ _ b]
  by (cases c) (simp_all add: forget_def)

lemma perform_all_events:
  "\<not> list_ex spawns cs \<Longrightarrow> \<not> list_ex is_spawn (snd (perform_all h cs b))"
proof (induction cs arbitrary: b)
  case Nil
  then show ?case by simp
next
  case (Cons c cs)
  then show ?case
    using perform_events [of c h b] by (simp add: case_prod_beta)
qed

section \<open>Construction\<close>

text \<open>
  C9.  Constructing an instance starts no process: the process handle of a new instance is
  absent, whatever the options, and it stays absent, with no process started, through
  every sequence of calls that holds neither \<open>spawn\<close> nor \<open>startBackend\<close> (which calls
  \<open>spawn\<close>).
\<close>

theorem constructor_spawns_nothing:
  "process (constructor h options) = None
   \<and> (\<not> list_ex spawns cs \<longrightarrow>
        process (fst (perform_all h cs (constructor h options))) = None
        \<and> \<not> list_ex is_spawn (snd (perform_all h cs (constructor h options))))"
  using perform_all_process_None [of "constructor h options" cs h]
    perform_all_events [of cs h "constructor h options"]
  by (simp add: constructor_process)

text \<open>
  On the test host, a new instance that is probed, deployed to, configured and stopped
  has no process handle; the same instance has one after \<open>spawn\<close>.
\<close>

theorem constructor_spawns_nothing_witness:
  "\<not> list_ex spawns [WaitForReady, Deploy, SetEnv ''A'' ''1'', Stop None]
   \<and> process (fst (perform_all stub_host [WaitForReady, Deploy, SetEnv ''A'' ''1'', Stop None]
        (constructor stub_host no_options))) = None
   \<and> process (fst (perform_all stub_host [Spawn ''/tmp/b''] (constructor stub_host no_options)))
        = Some \<lparr> pid = Some 4242 \<rparr>"
proof -
  have "process (fst (perform_all stub_host [Spawn ''/tmp/b''] (constructor stub_host no_options)))
        = Some \<lparr> pid = Some 4242 \<rparr>"
    by (simp add: forget_def spawn_def stub_host_def Let_def truthy_number_def)
  then show ?thesis
    using constructor_spawns_nothing [of stub_host no_options
        "[WaitForReady, Deploy, SetEnv ''A'' ''1'', Stop None]"]
    by simp
qed

text \<open>
  C2, as stated, fails: the constructor tests the two options for truthiness
  (\<open>options.instanceSecret && options.adminKey\<close>), and the empty string is falsy.  A
  configuration that supplies the empty string as secret, together with an admin key, gets
  both credentials from the generator.
\<close>

theorem supplied_credentials_counterexample:
  "opt_instanceSecret empty_secret_options = Some []
   \<and> opt_adminKey empty_secret_options = Some ''supplied-key''
   \<and> instanceSecret (constructor stub_host empty_secret_options) = ''generated-secret''
   \<and> adminKey (constructor stub_host empty_secret_options) = ''convex-local|generated-key''"
  by (simp add: constructor_def empty_secret_options_def no_options_def stub_host_def
      truthy_string_def nullish_def Let_def)

text \<open>
  C2, amended.  For every configuration that supplies a non-empty instance secret and a
  non-empty admin key, the stored secret and admin key are exactly the supplied values,
  the instance does not depend on the generator, and no sequence of calls on the instance
  changes either credential.
\<close>

theorem supplied_credentials_kept:
  assumes "opt_instanceSecret options = Some secret" and "secret \<noteq> []"
    and "opt_adminKey options = Some key" and "key \<noteq> []"
  shows "instanceSecret (constructor h options) = secret
         \<and> adminKey (constructor h options) = key
         \<and> constructor (h\<lparr>generateKeyPair := g\<rparr>) options = constructor h options
         \<and> instanceSecret (fst (perform_all h cs (constructor h options))) = secret
         \<and> adminKey (fst (perform_all h cs (constructor h options))) = key"
proof -
  have s: "instanceSecret (constructor h options) = secret"
    using assms by (simp add: constructor_def truthy_string_def Let_def)
  have k: "adminKey (constructor h options) = key"
    using assms by (simp add: constructor_def truthy_string_def Let_def)
  have g: "constructor (h\<lparr>generateKeyPair := g\<rparr>) options = constructor h options"
    using assms by (simp add: constructor_def truthy_string_def Let_def)
  show ?thesis
    using s k g perform_all_credentials [of h cs "constructor h options"] by simp
qed

theorem supplied_credentials_kept_witness:
  "instanceSecret (constructor stub_host both_options) = ''supplied-secret''
   \<and> adminKey (constructor stub_host both_options) = ''supplied-key''
   \<and> adminKey (fst (perform_all stub_host [Spawn ''/tmp/b'', WaitForReady, Stop None]
        (constructor stub_host both_options))) = ''supplied-key''"
proof -
  have 1: "opt_instanceSecret both_options = Some ''supplied-secret''"
    and 2: "opt_adminKey both_options = Some ''supplied-key''"
    by (simp_all add: both_options_def no_options_def)
  show ?thesis
    using supplied_credentials_kept [OF 1 _ 2, of stub_host "generateKeyPair stub_host"
        "[Spawn ''/tmp/b'', WaitForReady, Stop None]"]
    by simp
qed

text \<open>
  C10.  For every configuration that supplies exactly one of the instance secret and the
  admin key, both stored credentials are those the generator returns for the instance
  name, and the instance is the one built with neither supplied: the supplied value is
  discarded.
\<close>

theorem one_credential_regenerates_both:
  assumes "(opt_instanceSecret options = None) \<noteq> (opt_adminKey options = None)"
  shows "instanceSecret (constructor h options)
           = keys_instanceSecret
               (generateKeyPair h (nullish (opt_instanceName options) ''convex-local''))
         \<and> adminKey (constructor h options)
           = keys_adminKey
               (generateKeyPair h (nullish (opt_instanceName options) ''convex-local''))
         \<and> constructor h (options\<lparr>opt_instanceSecret := None, opt_adminKey := None\<rparr>)
           = constructor h options"
  using assms by (auto simp add: constructor_def truthy_string_def Let_def)

theorem one_credential_regenerates_both_witness:
  "(opt_instanceSecret secret_only_options = None) \<noteq> (opt_adminKey secret_only_options = None)
   \<and> instanceSecret (constructor stub_host secret_only_options) = ''generated-secret''
   \<and> adminKey (constructor stub_host secret_only_options) = ''convex-local|generated-key''"
proof -
  have 1: "(opt_instanceSecret secret_only_options = None)
           \<noteq> (opt_adminKey secret_only_options = None)"
    by (simp add: secret_only_options_def no_options_def)
  show ?thesis
    using 1 one_credential_regenerates_both [OF 1, of stub_host]
    by (simp add: secret_only_options_def no_options_def stub_host_def nullish_def)
qed

section \<open>Stopping and the start guard\<close>

text \<open>The two test instances, evaluated.\<close>

lemma fresh_instance_eq:
  "fresh_instance =
    \<lparr> port = Some 3210, siteProxyPort = Some 3211, process = None,
      backendUrl = Some ''http://127.0.0.1:3210'', projectDir = ''/project'',
      backendDir = ''/project/.convex/000102030405060708090a0b0c0d0e0f'',
      stdio = ''inherit'', instanceName = ''convex-local'',
      instanceSecret = ''generated-secret'', adminKey = ''convex-local|generated-key'',
      deployTimeout = 60000, healthCheckTimeout = 10000, binaryVersion = None,
      binaryCacheDir = None, binaryCacheTtl = 604800000 \<rparr>"
proof -
  have "show_nat 3210 = ''3210''" by code_simp
  then show ?thesis
    by (simp add: fresh_instance_def constructor_def no_options_def stub_host_def
        truthy_string_def nullish_def Let_def join_slash_def)
qed

lemma live_instance_eq: "live_instance = fresh_instance\<lparr>process := Some \<lparr> pid = Some 4242 \<rparr>\<rparr>"
  by (simp add: live_instance_def spawn_def stub_host_def Let_def truthy_number_def)

text \<open>
  C3.  For every instance whose process handle carries a process identifier, \<open>stop\<close>
  sends \<open>SIGKILL\<close> to that identifier and clears the handle; when cleanup is requested
  (the default) it then removes the working directory recursively.  The answer of
  \<open>process.kill\<close> does not matter, so a process that has exited already is no error.
  A failure of the removal is the exception of \<open>stop\<close>, raised after the signal was
  sent and the handle was cleared.
\<close>

theorem stop_live_instance:
  assumes "process b = Some child" and "pid child = Some p"
  shows "stop h cleanup b =
          (if nullish cleanup True
           then (case rm h (backendDir b) of None \<Rightarrow> Inr () | Some m \<Rightarrow> Inl (Thrown m))
           else Inr (),
           b\<lparr>process := None\<rparr>,
           Kill p ''SIGKILL'' #
             (if nullish cleanup True
              then [LogInfo ''Cleaning up backend files...'', Rm (backendDir b) True]
              else []))
         \<and> process (fst (snd (stop h cleanup b))) = None
         \<and> stop (h\<lparr>kill := k\<rparr>) cleanup b = stop h cleanup b"
  using assms by (simp add: stop_def Let_def split: option.splits)

text \<open>
  A live instance whose process has exited and whose directory is gone: \<open>stop\<close> raises
  the error of the removal, and the handle is cleared.
\<close>

theorem stop_live_instance_witness:
  "process live_instance = Some \<lparr> pid = Some 4242 \<rparr>
   \<and> stop gone_host None live_instance =
       (Inl (Thrown (''ENOENT: no such file or directory, lstat '' @ backendDir live_instance)),
        live_instance\<lparr>process := None\<rparr>,
        [Kill 4242 ''SIGKILL'', LogInfo ''Cleaning up backend files...'',
         Rm (backendDir live_instance) True])
   \<and> process (fst (snd (stop gone_host None live_instance))) = None"
proof -
  have 1: "process live_instance = Some \<lparr> pid = Some 4242 \<rparr>"
    by (simp add: live_instance_eq)
  have 2: "pid \<lparr> pid = Some 4242 \<rparr> = Some 4242" by simp
  show ?thesis
    using 1 stop_live_instance [OF 1 2, of gone_host None "kill gone_host"]
    by (simp add: gone_host_def nullish_def)
qed

text \<open>
  C4, as stated, fails on its second half: of two calls of \<open>stop\<close> in succession the
  first raises when cleanup is requested and the removal of the working directory fails
  (\<open>fsp.rm\<close> is called without \<open>force\<close>, so a directory that does not exist is an error).
\<close>

theorem stop_twice_counterexample:
  "process live_instance = Some \<lparr> pid = Some 4242 \<rparr>
   \<and> fst (stop gone_host None live_instance)
       = Inl (Thrown (''ENOENT: no such file or directory, lstat '' @ backendDir live_instance))
   \<and> fst (stop gone_host None (fst (snd (stop gone_host None live_instance)))) = Inr ()"
  by (simp add: live_instance_eq stop_def gone_host_def nullish_def Let_def)

text \<open>
  C4, amended.  \<open>stop\<close> on an instance with no process handle returns without an error,
  changes nothing and makes no call.  After any call of \<open>stop\<close>, whether it returned or
  raised, a second call returns without an error, changes nothing and makes no call.  A
  call of \<open>stop\<close> raises only on an instance with a handle, with cleanup requested, when the
  removal of the working directory fails.
\<close>

theorem stop_idempotent:
  "(process b = None \<longrightarrow> stop h c b = (Inr (), b, []))
   \<and> stop h' c' (fst (snd (stop h c b))) = (Inr (), fst (snd (stop h c b)), [])
   \<and> (fst (stop h c b) \<noteq> Inr () \<longrightarrow>
        nullish c True \<and> rm h (backendDir b) \<noteq> None \<and> process b \<noteq> None)"
  by (simp add: stop_def Let_def split: option.splits)

text \<open>
  On the host where the directory is gone: \<open>stop\<close> on the new instance is a no-op, and on
  the live instance the first call raises and the second is a no-op.
\<close>

theorem stop_idempotent_witness:
  "process fresh_instance = None
   \<and> stop gone_host None fresh_instance = (Inr (), fresh_instance, [])
   \<and> stop gone_host None (fst (snd (stop gone_host None live_instance)))
       = (Inr (), live_instance\<lparr>process := None\<rparr>, [])
   \<and> fst (stop gone_host None live_instance) \<noteq> Inr ()
   \<and> nullish None True \<and> rm gone_host (backendDir live_instance) \<noteq> None"
proof -
  have 1: "process fresh_instance = None" by (simp add: fresh_instance_eq)
  have 2: "fst (snd (stop gone_host None live_instance)) = live_instance\<lparr>process := None\<rparr>"
    by (simp add: live_instance_eq stop_def gone_host_def nullish_def Let_def)
  have 3: "fst (stop gone_host None live_instance) \<noteq> Inr ()"
    by (simp add: live_instance_eq stop_def gone_host_def nullish_def Let_def)
  show ?thesis
    using 1 2 3 stop_idempotent [of fresh_instance gone_host None gone_host None]
      stop_idempotent [of live_instance gone_host None gone_host None]
    by simp
qed

text \<open>
  C1.  The guard of \<open>deploy\<close>, \<open>setEnv\<close> and \<open>runFunction\<close> is
  \<open>if (!this.port) throw new Error("Backend not started")\<close>, and the constructor always
  sets the port.  On a new instance, whose process handle is absent, none of the three
  fails: each makes its external call.  The same holds for an instance that was spawned
  and stopped, whose handle \<open>stop\<close> has cleared.
\<close>

theorem not_started_guard_tests_port:
  "process fresh_instance = None
   \<and> deploy stub_host fresh_instance
       = (Inr (), fresh_instance,
          [SpawnSync ''bun'' (deploy_args fresh_instance) ''/project'' 60000])
   \<and> setEnv stub_host ''NAME'' ''value'' fresh_instance
       = (Inr (), fresh_instance, [Fetch (setEnv_request fresh_instance ''NAME'' ''value'')])
   \<and> fst (runFunction stub_host ''messages:list'' None fresh_instance) = Inr None
   \<and> list_ex is_http (snd (snd (runFunction stub_host ''messages:list'' None fresh_instance)))
   \<and> process (fst (snd (stop stub_host None live_instance))) = None
   \<and> deploy stub_host (fst (snd (stop stub_host None live_instance)))
       = (Inr (), fresh_instance,
          [SpawnSync ''bun'' (deploy_args fresh_instance) ''/project'' 60000])"
proof -
  have s: "fst (snd (stop stub_host None live_instance)) = fresh_instance"
    by (simp add: live_instance_eq stop_def stub_host_def nullish_def Let_def)
      (simp add: fresh_instance_eq)
  have f: "process fresh_instance = None
   \<and> deploy stub_host fresh_instance
       = (Inr (), fresh_instance,
          [SpawnSync ''bun'' (deploy_args fresh_instance) ''/project'' 60000])
   \<and> setEnv stub_host ''NAME'' ''value'' fresh_instance
       = (Inr (), fresh_instance, [Fetch (setEnv_request fresh_instance ''NAME'' ''value'')])
   \<and> fst (runFunction stub_host ''messages:list'' None fresh_instance) = Inr None
   \<and> list_ex is_http (snd (snd (runFunction stub_host ''messages:list'' None fresh_instance)))"
    by (simp add: fresh_instance_eq deploy_def setEnv_def runFunction_def truthy_number_def
        stub_host_def ok_response_def ok_def Let_def)
  show ?thesis
    using f by (simp only: s)
qed

section \<open>The runtime API and the deploy command\<close>

lemma sublist_between: "sublist xs (ps @ xs @ ss)"
  by (rule sublist_appendI)

lemma sublist_at_end: "sublist xs (ps @ xs)"
  using sublist_appendI [of xs ps "[]"] by simp

text \<open>
  C7.  A call of \<open>setEnv\<close> that receives a response (so the guard on the port has passed
  and \<open>fetch\<close> has answered) returns without an error when the status is 2xx; for every
  other status it raises an error whose message holds the status code and the text of the
  response body.
\<close>

theorem setEnv_response:
  assumes "truthy_number (port b)"
    and "fetch h (setEnv_request b name val) = Inr response"
  shows "(ok response \<longrightarrow> setEnv h name val b = (Inr (), b, [Fetch (setEnv_request b name val)]))
    \<and> (\<not> ok response \<longrightarrow>
         (let msg = ''Failed to set '' @ name @ '' env via API (''
                    @ show_nat (status response) @ ''): '' @ text_of response
          in fst (setEnv h name val b) = Inl (Error msg)
             \<and> sublist (show_nat (status response)) msg
             \<and> sublist (text_of response) msg))"
proof -
  have 1: "sublist (show_nat (status response))
            ((''Failed to set '' @ name @ '' env via API ('')
              @ show_nat (status response) @ (''): '' @ text_of response))"
    by (rule sublist_between)
  have 2: "sublist (text_of response)
            ((''Failed to set '' @ name @ '' env via API (''
              @ show_nat (status response) @ ''): '') @ text_of response)"
    by (rule sublist_at_end)
  show ?thesis
    using assms 1 2 by (simp add: setEnv_def Let_def)
qed

text \<open>A response 500 with the body \<open>internal error\<close>, and a response 200.\<close>

theorem setEnv_response_witness:
  "truthy_number (port fresh_instance)
   \<and> \<not> ok error_response
   \<and> fst (setEnv failing_api_host ''NAME'' ''value'' fresh_instance)
       = Inl (Error ''Failed to set NAME env via API (500): internal error'')
   \<and> ok ok_response
   \<and> fst (setEnv stub_host ''NAME'' ''value'' fresh_instance) = Inr ()"
proof -
  have p: "truthy_number (port fresh_instance)"
    by (simp add: fresh_instance_eq truthy_number_def)
  have f: "fetch failing_api_host (setEnv_request fresh_instance ''NAME'' ''value'') = Inr error_response"
    by (simp add: failing_api_host_def)
  have g: "fetch stub_host (setEnv_request fresh_instance ''NAME'' ''value'') = Inr ok_response"
    by (simp add: stub_host_def)
  have n: "show_nat 500 = ''500''" by code_simp
  have e: "\<not> ok error_response" "status error_response = 500"
    "text_of error_response = ''internal error''"
    by (simp_all add: ok_def error_response_def)
  have k: "ok ok_response" by (simp add: ok_def ok_response_def)
  show ?thesis
    using p e k n setEnv_response [OF p f] setEnv_response [OF p g]
    by (simp add: Let_def)
qed

text \<open>
  C6.  Whenever \<open>deploy\<close> runs the deploy command, it runs it once, through \<open>spawnSync\<close>,
  bounded by the deploy timeout of the instance.  A command that exited by itself with a
  status other than 0 raises an error whose message holds the captured standard output
  and standard error.  An error reported by \<open>spawnSync\<close> is raised with its message, so a
  command killed at the timeout raises an error that names \<open>ETIMEDOUT\<close>.
\<close>

theorem deploy_failure:
  assumes "truthy_number (port b)"
    and "spawnSync h ''bun'' (deploy_args b) (projectDir b) (deployTimeout b) = r"
  shows "snd (snd (deploy h b))
           = [SpawnSync ''bun'' (deploy_args b) (projectDir b) (deployTimeout b)]
    \<and> (sync_error r = None \<and> sync_status r \<noteq> Some 0 \<longrightarrow>
         (let msg = ''Failed to deploy (exit code '' @ show_status (sync_status r) @ ''):''
                    @ [CHR 0x0A] @ sync_stdout r @ sync_stderr r
          in fst (deploy h b) = Inl (Error msg)
             \<and> sublist (sync_stdout r) msg \<and> sublist (sync_stderr r) msg))
    \<and> (\<forall>m. sync_error r = Some m \<longrightarrow>
         fst (deploy h b) = Inl (Error (''Failed to spawn convex deploy: '' @ m)))
    \<and> (sync_error r = Some (timeout_message ''bun'') \<longrightarrow>
         fst (deploy h b)
           = Inl (Error ''Failed to spawn convex deploy: spawnSync bun ETIMEDOUT''))"
proof -
  have 1: "sublist (sync_stdout r)
            ((''Failed to deploy (exit code '' @ show_status (sync_status r) @ ''):'' @ [CHR 0x0A])
              @ sync_stdout r @ sync_stderr r)"
    by (rule sublist_between)
  have 2: "sublist (sync_stderr r)
            ((''Failed to deploy (exit code '' @ show_status (sync_status r) @ ''):'' @ [CHR 0x0A]
              @ sync_stdout r) @ sync_stderr r)"
    by (rule sublist_at_end)
  have ev: "snd (snd (deploy h b))
           = [SpawnSync ''bun'' (deploy_args b) (projectDir b) (deployTimeout b)]"
    using assms(1) by (simp add: deploy_def Let_def split: option.splits)
  have st: "sync_error r = None \<and> sync_status r \<noteq> Some 0 \<longrightarrow>
         fst (deploy h b) = Inl (Error (''Failed to deploy (exit code ''
            @ show_status (sync_status r) @ ''):'' @ [CHR 0x0A] @ sync_stdout r @ sync_stderr r))"
    using assms by (simp add: deploy_def Let_def)
  have er: "\<forall>m. sync_error r = Some m \<longrightarrow>
         fst (deploy h b) = Inl (Error (''Failed to spawn convex deploy: '' @ m))"
    using assms by (simp add: deploy_def Let_def)
  have tm: "sync_error r = Some (timeout_message ''bun'') \<longrightarrow>
         fst (deploy h b)
           = Inl (Error ''Failed to spawn convex deploy: spawnSync bun ETIMEDOUT'')"
    using er by (simp add: timeout_message_def)
  show ?thesis
    using ev st er tm 1 2 by (simp add: Let_def)
qed

text \<open>A deploy command that exits with status 1, and one that is killed at the timeout.\<close>

theorem deploy_failure_witness:
  "truthy_number (port fresh_instance)
   \<and> fst (deploy failing_deploy_host fresh_instance)
       = Inl (Error (''Failed to deploy (exit code 1):'' @ [CHR 0x0A]
                     @ ''pushing... schema validation failed''))
   \<and> fst (deploy slow_deploy_host fresh_instance)
       = Inl (Error ''Failed to spawn convex deploy: spawnSync bun ETIMEDOUT'')
   \<and> snd (snd (deploy slow_deploy_host fresh_instance))
       = [SpawnSync ''bun'' (deploy_args fresh_instance) ''/project'' 60000]"
proof -
  have p: "truthy_number (port fresh_instance)"
    by (simp add: fresh_instance_eq truthy_number_def)
  have n: "show_status (Some 1) = ''1''"
    unfolding show_status_def by code_simp
  have d: "projectDir fresh_instance = ''/project''" "deployTimeout fresh_instance = 60000"
    by (simp_all add: fresh_instance_eq)
  show ?thesis
    using p n d
      deploy_failure [OF p refl, of failing_deploy_host]
      deploy_failure [OF p refl, of slow_deploy_host]
    by (simp add: failing_deploy_host_def slow_deploy_host_def Let_def timeout_message_def)
qed

section \<open>Spawning and readiness\<close>

lemma spawn_no_http: "\<not> list_ex is_http (snd (snd (spawn h dir b)))"
  by (simp add: spawn_def Let_def split: option.splits sum.splits)

lemma spawn_ignores_network: "spawn (h\<lparr>fetch := f, probe := q\<rparr>) dir b = spawn h dir b"
  by (simp add: spawn_def Let_def split: option.splits sum.splits)

text \<open>
  C8.  Once the storage directory exists and the executable is provisioned, \<open>spawn\<close>
  creates the process once.  It returns without an error when the process has a process
  identifier, and raises otherwise, without a second attempt; either way the handle is
  stored.  It issues no HTTP request, and its outcome does not depend on what the network
  answers.
\<close>

theorem spawn_returns_on_pid:
  assumes "mkdirSync h (pathJoin h [dir, ''convex_local_storage'']) = None"
    and "downloadConvexBinary h
           \<lparr> cacheTtlMs = binaryCacheTtl b, version = binaryVersion b,
             cacheDir = binaryCacheDir b \<rparr> = Inr convexBinary"
    and "spawnChild h convexBinary
           (backend_args b (pathJoin h [dir, ''convex_local_storage''])
              (pathJoin h [dir, ''convex_local_backend.sqlite3'']))
           dir (stdio b) = child"
  shows "(truthy_number (pid child) \<longrightarrow> fst (spawn h dir b) = Inr ())
    \<and> (\<not> truthy_number (pid child) \<longrightarrow>
         fst (spawn h dir b) = Inl (Error ''Convex process failed to start - no PID assigned''))
    \<and> process (fst (snd (spawn h dir b))) = Some child
    \<and> length (filter is_spawn (snd (snd (spawn h dir b)))) = 1
    \<and> \<not> list_ex is_http (snd (snd (spawn h dir b)))
    \<and> spawn (h\<lparr>fetch := f, probe := q\<rparr>) dir b = spawn h dir b"
proof -
  have r: "(truthy_number (pid child) \<longrightarrow> fst (spawn h dir b) = Inr ())
    \<and> (\<not> truthy_number (pid child) \<longrightarrow>
         fst (spawn h dir b) = Inl (Error ''Convex process failed to start - no PID assigned''))"
    using assms by (simp add: spawn_def Let_def)
  have p: "process (fst (snd (spawn h dir b))) = Some child"
    using assms by (simp add: spawn_def Let_def)
  have n: "length (filter is_spawn (snd (snd (spawn h dir b)))) = 1"
    using assms by (simp add: spawn_def Let_def)
  show ?thesis
    using r p n spawn_no_http [of h dir b] spawn_ignores_network [where h = h and f = f and q = q and dir = dir and b = b] by simp
qed

text \<open>A host that assigns the process identifier 4242, and one that assigns none.\<close>

theorem spawn_returns_on_pid_witness:
  "truthy_number (pid \<lparr> pid = Some 4242 \<rparr>)
   \<and> fst (spawn stub_host ''/tmp/b'' fresh_instance) = Inr ()
   \<and> process (fst (snd (spawn stub_host ''/tmp/b'' fresh_instance))) = Some \<lparr> pid = Some 4242 \<rparr>
   \<and> \<not> truthy_number (pid \<lparr> pid = None \<rparr>)
   \<and> fst (spawn no_pid_host ''/tmp/b'' fresh_instance)
       = Inl (Error ''Convex process failed to start - no PID assigned'')
   \<and> length (filter is_spawn (snd (snd (spawn no_pid_host ''/tmp/b'' fresh_instance)))) = 1"
proof -
  have m: "mkdirSync stub_host (pathJoin stub_host [''/tmp/b'', ''convex_local_storage'']) = None"
    "mkdirSync no_pid_host (pathJoin no_pid_host [''/tmp/b'', ''convex_local_storage'']) = None"
    by (simp_all add: stub_host_def no_pid_host_def)
  have d: "downloadConvexBinary stub_host
           \<lparr> cacheTtlMs = binaryCacheTtl fresh_instance, version = binaryVersion fresh_instance,
             cacheDir = binaryCacheDir fresh_instance \<rparr> = Inr ''/cache/convex-local-backend''"
    "downloadConvexBinary no_pid_host
           \<lparr> cacheTtlMs = binaryCacheTtl fresh_instance, version = binaryVersion fresh_instance,
             cacheDir = binaryCacheDir fresh_instance \<rparr> = Inr ''/cache/convex-local-backend''"
    by (simp_all add: stub_host_def no_pid_host_def)
  have c: "spawnChild stub_host binary args dir io = \<lparr> pid = Some 4242 \<rparr>"
    "spawnChild no_pid_host binary args dir io = \<lparr> pid = None \<rparr>" for binary args dir io
    by (simp_all add: stub_host_def no_pid_host_def)
  show ?thesis
    using spawn_returns_on_pid [OF m(1) d(1) refl, where f = "fetch stub_host" and q = "probe stub_host"]
      spawn_returns_on_pid [OF m(2) d(2) refl, where f = "fetch no_pid_host" and q = "probe no_pid_host"]
    by (simp add: c truthy_number_def)
qed

lemma round_ms_pos: "0 < round_ms h"
  by (simp add: round_ms_def)

lemma waitForHttpOk_from_first_ok:
  "\<lbrakk> elapsed + k * round_ms h < timeoutMs; probe_ok h url (elapsed + k * round_ms h);
     \<forall>j<k. \<not> probe_ok h url (elapsed + j * round_ms h) \<rbrakk>
   \<Longrightarrow> waitForHttpOk_from h url timeoutMs elapsed
       = (Inr (), replicate (Suc k) (Fetch (get_request url)))"
proof (induction k arbitrary: elapsed)
  case 0
  then show ?case
    by (subst waitForHttpOk_from.simps) simp
next
  case (Suc k)
  have lt: "elapsed < timeoutMs" using Suc.prems(1) by simp
  have no: "\<not> probe_ok h url elapsed" using Suc.prems(3) [rule_format, of 0] by simp
  have step: "waitForHttpOk_from h url timeoutMs (elapsed + round_ms h)
       = (Inr (), replicate (Suc k) (Fetch (get_request url)))"
  proof (rule Suc.IH)
    show "elapsed + round_ms h + k * round_ms h < timeoutMs"
      using Suc.prems(1) by (simp add: algebra_simps)
    show "probe_ok h url (elapsed + round_ms h + k * round_ms h)"
      using Suc.prems(2) by (simp add: algebra_simps)
    show "\<forall>j<k. \<not> probe_ok h url (elapsed + round_ms h + j * round_ms h)"
    proof (intro allI impI)
      fix j assume "j < k"
      then have "Suc j < Suc k" by simp
      then have "\<not> probe_ok h url (elapsed + Suc j * round_ms h)"
        using Suc.prems(3) by blast
      then show "\<not> probe_ok h url (elapsed + round_ms h + j * round_ms h)"
        by (simp add: algebra_simps)
    qed
  qed
  show ?case
    using lt no step by (subst waitForHttpOk_from.simps) simp
qed

lemma waitForHttpOk_from_some_ok:
  assumes "elapsed + k * round_ms h < timeoutMs" and "probe_ok h url (elapsed + k * round_ms h)"
  shows "fst (waitForHttpOk_from h url timeoutMs elapsed) = Inr ()"
proof -
  obtain i where i: "probe_ok h url (elapsed + i * round_ms h)"
    and least: "\<forall>j. probe_ok h url (elapsed + j * round_ms h) \<longrightarrow> i \<le> j"
    using ex_has_least_nat [of "\<lambda>j. probe_ok h url (elapsed + j * round_ms h)" k id] assms(2)
    by auto
  have "i \<le> k" using least assms(2) by blast
  then have "i * round_ms h \<le> k * round_ms h"
    by (rule mult_le_mono1)
  then have lt: "elapsed + i * round_ms h < timeoutMs"
    using assms(1) by linarith
  have before: "\<forall>j<i. \<not> probe_ok h url (elapsed + j * round_ms h)"
    using least by (meson not_less)
  show ?thesis
    by (simp only: waitForHttpOk_from_first_ok [OF lt i before] fst_conv)
qed

lemma waitForHttpOk_from_never_ok:
  "\<forall>k. elapsed + k * round_ms h < timeoutMs \<longrightarrow> \<not> probe_ok h url (elapsed + k * round_ms h)
   \<Longrightarrow> fst (waitForHttpOk_from h url timeoutMs elapsed) = Inl (ReadinessTimeout url timeoutMs)"
proof (induction h url timeoutMs elapsed rule: waitForHttpOk_from.induct)
  case (1 h url timeoutMs elapsed)
  show ?case
  proof (cases "timeoutMs \<le> elapsed")
    case True
    then show ?thesis by (subst waitForHttpOk_from.simps) simp
  next
    case False
    have no: "\<not> probe_ok h url elapsed"
      using "1.prems" [rule_format, of 0] False by simp
    have "\<forall>k. elapsed + round_ms h + k * round_ms h < timeoutMs \<longrightarrow>
              \<not> probe_ok h url (elapsed + round_ms h + k * round_ms h)"
    proof (intro allI impI)
      fix k assume "elapsed + round_ms h + k * round_ms h < timeoutMs"
      then have "elapsed + Suc k * round_ms h < timeoutMs" by (simp add: algebra_simps)
      then have "\<not> probe_ok h url (elapsed + Suc k * round_ms h)"
        using "1.prems" by blast
      then show "\<not> probe_ok h url (elapsed + round_ms h + k * round_ms h)"
        by (simp add: algebra_simps)
    qed
    then have "fst (waitForHttpOk_from h url timeoutMs (elapsed + round_ms h))
               = Inl (ReadinessTimeout url timeoutMs)"
      using "1.IH" False no by simp
    then show ?thesis
      using False no by (subst waitForHttpOk_from.simps) simp
  qed
qed

lemma waitForHttpOk_from_result:
  "fst (waitForHttpOk_from h url timeoutMs elapsed) = Inr ()
   \<or> fst (waitForHttpOk_from h url timeoutMs elapsed) = Inl (ReadinessTimeout url timeoutMs)"
proof (induction h url timeoutMs elapsed rule: waitForHttpOk_from.induct)
  case (1 h url timeoutMs elapsed)
  then show ?case
    by (subst (1 2) waitForHttpOk_from.simps) auto
qed

lemma waitForHttpOk_from_probes:
  "length (snd (waitForHttpOk_from h url timeoutMs elapsed)) \<le> timeoutMs - elapsed"
proof (induction h url timeoutMs elapsed rule: waitForHttpOk_from.induct)
  case (1 h url timeoutMs elapsed)
  show ?case
  proof (cases "timeoutMs \<le> elapsed \<or> probe_ok h url elapsed")
    case True
    then show ?thesis by (subst waitForHttpOk_from.simps) auto
  next
    case False
    then have "length (snd (waitForHttpOk_from h url timeoutMs (elapsed + round_ms h)))
               \<le> timeoutMs - (elapsed + round_ms h)"
      using "1.IH" by simp
    then show ?thesis
      using False round_ms_pos [of h] by (subst waitForHttpOk_from.simps) auto
  qed
qed

lemma waitForReady_result:
  "truthy_number (port b) \<Longrightarrow>
   fst (waitForReady h b) = fst (waitForHttpOk_from h (version_url b) (healthCheckTimeout b) 0)"
  by (simp add: waitForReady_def healthCheck_def waitForHttpOk_def Let_def case_prod_beta
      split: sum.splits)

text \<open>
  C5.  On an instance whose port is set (otherwise no probe is sent), \<open>waitForReady\<close>
  returns without an error as soon as a probe inside the health check timeout is answered
  with a 2xx status; if no probe inside the timeout is, it raises the timeout error.  On
  every instance it never raises the exception of a probe (a refused connection), and it
  issues at most as many probes as the timeout has milliseconds: it always returns.
\<close>

theorem waitForReady_polls:
  "(truthy_number (port b) \<and> k * round_ms h < healthCheckTimeout b
      \<and> probe_ok h (version_url b) (k * round_ms h)
     \<longrightarrow> fst (waitForReady h b) = Inr ())
   \<and> (truthy_number (port b)
      \<and> (\<forall>j. j * round_ms h < healthCheckTimeout b
             \<longrightarrow> \<not> probe_ok h (version_url b) (j * round_ms h))
     \<longrightarrow> fst (waitForReady h b)
          = Inl (ReadinessTimeout (version_url b) (healthCheckTimeout b)))
   \<and> fst (waitForReady h b) \<noteq> Inl (Thrown m)
   \<and> length (filter is_http (snd (snd (waitForReady h b)))) \<le> healthCheckTimeout b"
proof -
  have a: "truthy_number (port b) \<and> k * round_ms h < healthCheckTimeout b
      \<and> probe_ok h (version_url b) (k * round_ms h)
     \<longrightarrow> fst (waitForReady h b) = Inr ()"
    using waitForHttpOk_from_some_ok [of 0 k h "healthCheckTimeout b" "version_url b"]
      waitForReady_result [of b h] by simp
  have b: "truthy_number (port b)
      \<and> (\<forall>j. j * round_ms h < healthCheckTimeout b
             \<longrightarrow> \<not> probe_ok h (version_url b) (j * round_ms h))
     \<longrightarrow> fst (waitForReady h b)
          = Inl (ReadinessTimeout (version_url b) (healthCheckTimeout b))"
    using waitForHttpOk_from_never_ok [of 0 h "healthCheckTimeout b" "version_url b"]
      waitForReady_result [of b h] by simp
  have c: "fst (waitForReady h b) \<noteq> Inl (Thrown m)"
  proof (cases "truthy_number (port b)")
    case True
    then show ?thesis
      using waitForHttpOk_from_result [of h "version_url b" "healthCheckTimeout b" 0]
        waitForReady_result [of b h] by auto
  next
    case False
    then show ?thesis
      by (simp add: waitForReady_def healthCheck_def)
  qed
  have "length (filter is_http (snd (snd (waitForReady h b))))
        \<le> length (snd (waitForHttpOk_from h (version_url b) (healthCheckTimeout b) 0))"
    by (simp add: waitForReady_def healthCheck_def waitForHttpOk_def Let_def case_prod_beta
        split: sum.splits)
  then have d: "length (filter is_http (snd (snd (waitForReady h b)))) \<le> healthCheckTimeout b"
    using waitForHttpOk_from_probes [of h "version_url b" "healthCheckTimeout b" 0] by simp
  show ?thesis by (rule conjI [OF a conjI [OF b conjI [OF c d]]])
qed

text \<open>
  The endpoint that answers 200 from the third probe on, and the endpoint that refuses
  every connection, probed with a timeout of 50 milliseconds.
\<close>

theorem waitForReady_polls_witness:
  "truthy_number (port fresh_instance)
   \<and> 2 * round_ms stub_host < healthCheckTimeout fresh_instance
   \<and> probe_ok stub_host (version_url fresh_instance) (2 * round_ms stub_host)
   \<and> fst (waitForReady stub_host fresh_instance) = Inr ()
   \<and> truthy_number (port impatient_instance)
   \<and> fst (waitForReady refusing_host impatient_instance)
       = Inl (ReadinessTimeout (version_url impatient_instance) 50)"
proof -
  have p: "truthy_number (port fresh_instance)"
    by (simp add: fresh_instance_eq truthy_number_def)
  have q: "truthy_number (port impatient_instance)"
    by (simp add: impatient_instance_def constructor_def no_options_def nullish_def
        truthy_number_def Let_def)
  have t: "healthCheckTimeout fresh_instance = 10000" "healthCheckTimeout impatient_instance = 50"
    by (simp_all add: fresh_instance_eq impatient_instance_def constructor_def no_options_def
        nullish_def Let_def)
  have r: "round_ms stub_host = 100"
    by (simp add: round_ms_def stub_host_def)
  have o: "probe_ok stub_host url 200" for url
    by (simp add: probe_ok_def stub_host_def ok_def ok_response_def)
  have n: "\<not> probe_ok refusing_host url j" for url j
    by (simp add: probe_ok_def refusing_host_def)
  show ?thesis
    using p q t r o n
      waitForReady_polls [of fresh_instance 2 stub_host]
      waitForReady_polls [of impatient_instance 0 refusing_host]
    by simp
qed

end
